theory Spec2Isabelle
  imports Complex_Main
begin

section \<open>Python values\<close>

subsection \<open>Strings\<close>

text \<open>
  A Python \<open>str\<close> is a sequence of Unicode code points. The program strips the bullet
  U+2022, which is no 8-bit character, so a string is a list of code points here and
  \<open>length\<close> counts what Python's \<open>len\<close> counts. \<open>str\<close> embeds an ASCII literal.
\<close>

type_synonym pystr = "nat list"

definition str :: "string \<Rightarrow> pystr" where
  "str s = map of_char s"

text \<open>
  \<open>str.isspace\<close> on one code point, as CPython decides it: the ASCII controls
  \<open>\t \n \v \f \r\<close>, the separators 0x1C to 0x1F, the space, and the Unicode white space
  0x85, 0xA0, 0x1680, 0x2000 to 0x200A, 0x2028, 0x2029, 0x202F, 0x205F, 0x3000.
\<close>

definition py_isspace :: "nat \<Rightarrow> bool" where
  "py_isspace c \<longleftrightarrow>
     (9 \<le> c \<and> c \<le> 13) \<or> (28 \<le> c \<and> c \<le> 32) \<or> c = 133 \<or> c = 160 \<or> c = 5760 \<or>
     (8192 \<le> c \<and> c \<le> 8202) \<or> c = 8232 \<or> c = 8233 \<or> c = 8239 \<or> c = 8287 \<or> c = 12288"

text \<open>
  \<open>s.strip()\<close> removes white space from both ends; \<open>s.strip(chars)\<close> removes from both
  ends every code point that occurs in \<open>chars\<close>.
\<close>

definition strip_by :: "(nat \<Rightarrow> bool) \<Rightarrow> pystr \<Rightarrow> pystr" where
  "strip_by P s = rev (dropWhile P (rev (dropWhile P s)))"

definition py_strip :: "pystr \<Rightarrow> pystr" where
  "py_strip s = strip_by py_isspace s"

definition py_strip_chars :: "pystr \<Rightarrow> pystr \<Rightarrow> pystr" where
  "py_strip_chars chars s = strip_by (\<lambda>c. c \<in> set chars) s"

text \<open>\<open>sep.join(xs)\<close>.\<close>

fun py_join :: "pystr \<Rightarrow> pystr list \<Rightarrow> pystr" where
  "py_join sep [] = []"
| "py_join sep [x] = x"
| "py_join sep (x # y # ys) = x @ sep @ py_join sep (y # ys)"

text \<open>
  \<open>s.split(sep)\<close> for a separator: the string is scanned from the left, every occurrence
  of \<open>sep\<close> found ends a piece and the scan goes on behind it; the empty string gives one
  empty piece. Python raises ValueError for an empty separator; the program only splits
  at the three constant separators below, and an empty separator never matches here.
\<close>

fun py_split :: "pystr \<Rightarrow> pystr \<Rightarrow> pystr list" where
  "py_split sep [] = [[]]"
| "py_split sep (c # cs) =
     (if sep \<noteq> [] \<and> take (length sep) (c # cs) = sep
      then [] # py_split sep (drop (length sep) (c # cs))
      else (case py_split sep cs of
              [] \<Rightarrow> [[c]]
            | piece # pieces \<Rightarrow> (c # piece) # pieces))"

subsection \<open>Parsed JSON\<close>

text \<open>
  What \<open>resp.json()\<close> can return, and so what \<open>call_llm\<close> can return: \<open>None\<close>, a bool, an
  int, a float (its finite values, as rationals), a string, a list, or a dict with string
  keys, kept as its items.
\<close>

datatype pyval =
    PNone
  | PBool bool
  | PInt int
  | PFloat rat
  | PStr pystr
  | PList "pyval list"
  | PDict "(pystr \<times> pyval) list"

text \<open>Python's truth value of an object, as \<open>if x\<close> and \<open>x and y\<close> test it.\<close>

fun truthy :: "pyval \<Rightarrow> bool" where
  "truthy PNone = False"
| "truthy (PBool b) = b"
| "truthy (PInt i) = (i \<noteq> 0)"
| "truthy (PFloat r) = (r \<noteq> 0)"
| "truthy (PStr s) = (s \<noteq> [])"
| "truthy (PList xs) = (xs \<noteq> [])"
| "truthy (PDict kvs) = (kvs \<noteq> [])"

subsection \<open>Exceptions\<close>

datatype error =
    HTTPException nat pystr
  | RequestException
  | JSONDecodeError
  | AttributeError
  | KeyError
  | IndexError
  | TypeError
  | ValidationError
  | StoreError

text \<open>\<open>isinstance(v, dict)\<close>.\<close>

fun is_dict :: "pyval \<Rightarrow> bool" where
  "is_dict (PDict kvs) = True"
| "is_dict v = False"

text \<open>
  \<open>v.get(k)\<close>: on a dict the value under \<open>k\<close>, or \<open>None\<close> without the key; no other
  JSON value has an attribute \<open>get\<close>. \<open>dict_get\<close> is the call behind an \<open>isinstance\<close> test.
\<close>

fun dict_get :: "pyval \<Rightarrow> pystr \<Rightarrow> pyval" where
  "dict_get (PDict kvs) k = (case map_of kvs k of None \<Rightarrow> PNone | Some v \<Rightarrow> v)"
| "dict_get v k = PNone"

definition py_get :: "pyval \<Rightarrow> pystr \<Rightarrow> error + pyval" where
  "py_get v k = (if is_dict v then Inr (dict_get v k) else Inl AttributeError)"

text \<open>
  \<open>v[k]\<close> for a string key \<open>k\<close>: KeyError on a dict without the key; a list or a string
  takes integer indices only, and the other values cannot be subscripted.
\<close>

fun subscript_key :: "pyval \<Rightarrow> pystr \<Rightarrow> error + pyval" where
  "subscript_key (PDict kvs) k = (case map_of kvs k of None \<Rightarrow> Inl KeyError | Some v \<Rightarrow> Inr v)"
| "subscript_key v k = Inl TypeError"

text \<open>
  \<open>v[0]\<close>: the first element of a list, the first character of a string, IndexError when
  either is empty; a parsed JSON dict has string keys only, so \<open>0\<close> is never a key of it.
\<close>

fun subscript_0 :: "pyval \<Rightarrow> error + pyval" where
  "subscript_0 (PList []) = Inl IndexError"
| "subscript_0 (PList (x # xs)) = Inr x"
| "subscript_0 (PStr []) = Inl IndexError"
| "subscript_0 (PStr (c # cs)) = Inr (PStr [c])"
| "subscript_0 (PDict kvs) = Inl KeyError"
| "subscript_0 v = Inl TypeError"

section \<open>The text-generation client\<close>

text \<open>
  \<open>AI_PROVIDER_URL\<close> and \<open>AI_API_KEY\<close> are read from the environment when the module is
  loaded; \<open>os.getenv\<close> gives \<open>None\<close> for a variable that is not set.
\<close>

record config =
  AI_PROVIDER_URL :: "pystr option"
  AI_API_KEY :: "pystr option"

text \<open>\<open>AI_PROVIDER_URL and AI_API_KEY\<close>: both set and neither the empty string.\<close>

definition configured :: "config \<Rightarrow> bool" where
  "configured cfg \<longleftrightarrow>
     (case AI_PROVIDER_URL cfg of
        None \<Rightarrow> False
      | Some url \<Rightarrow> url \<noteq> [] \<and> (case AI_API_KEY cfg of None \<Rightarrow> False | Some k \<Rightarrow> k \<noteq> []))"

text \<open>
  What the one \<open>requests.post\<close> of a call does: it raises (no connection, a timeout), or
  it returns a response with its \<open>ok\<close> flag and what \<open>resp.json()\<close> gives, \<open>None\<close> when the
  body does not parse and \<open>json()\<close> raises.
\<close>

record response =
  ok :: bool
  json :: "pyval option"

datatype post_outcome = PostRaises | PostReturns response

definition unavailable_draft :: "pystr \<Rightarrow> pystr" where
  "unavailable_draft prompt = str ''Draft (AI service unavailable): '' @ take 280 prompt @ str ''...''"

definition error_draft :: "pystr \<Rightarrow> pystr" where
  "error_draft prompt = str ''Draft (AI error): '' @ take 280 prompt @ str ''...''"

definition fallback_draft :: pystr where
  "fallback_draft =
     str ''Professional, impact-driven candidate. Blends technical depth with clear communication, '' @
     str ''drives outcomes through projects, internships, and community work. Values clarity, '' @
     str ''collaboration, and continuous learning.''"

text \<open>
  The body of the \<open>try\<close> block of \<open>call_llm\<close>; \<open>Inl\<close> is an exception raised inside it.
\<close>

definition call_llm_try :: "post_outcome \<Rightarrow> pystr \<Rightarrow> error + pyval" where
  "call_llm_try outcome prompt =
     (case outcome of
        PostRaises \<Rightarrow> Inl RequestException
      | PostReturns resp \<Rightarrow>
          if ok resp then
            (case json resp of
               None \<Rightarrow> Inl JSONDecodeError
             | Some data \<Rightarrow>
                 if is_dict data \<and> truthy (dict_get data (str ''text''))
                 then subscript_key data (str ''text'')
                 else
                   (case py_get data (str ''choices'') of
                      Inl e \<Rightarrow> Inl e
                    | Inr ch \<Rightarrow>
                        if truthy ch then
                          (case subscript_key data (str ''choices'') of
                             Inl e \<Rightarrow> Inl e
                           | Inr choices \<Rightarrow>
                               (case subscript_0 choices of
                                  Inl e \<Rightarrow> Inl e
                                | Inr choice \<Rightarrow> subscript_key choice (str ''text'')))
                        else Inr (PStr (unavailable_draft prompt))))
          else Inr (PStr (unavailable_draft prompt)))"

text \<open>
  \<open>call_llm\<close>: \<open>except Exception\<close> turns every exception of the \<open>try\<close> block into the
  error draft; without configuration no request is made.
\<close>

definition call_llm :: "config \<Rightarrow> post_outcome \<Rightarrow> pystr \<Rightarrow> error + pyval" where
  "call_llm cfg outcome prompt =
     (if configured cfg then
        (case call_llm_try outcome prompt of
           Inl e \<Rightarrow> Inr (PStr (error_draft prompt))
         | Inr v \<Rightarrow> Inr v)
      else Inr (PStr fallback_draft))"

section \<open>The generation endpoint\<close>

text \<open>
  The dicts that \<open>generate_portfolio\<close> builds have fixed keys and are records here; the
  fields of the pydantic models are those of \<open>schemas.py\<close>. A field name that several
  records share is written with its record's name.
\<close>

record project_dict =
  title :: pystr
  description :: pystr
  impact :: pystr

record experience_dict =
  role :: pystr
  details :: pystr
  achievements :: "pyval list"

record education_dict =
  program :: pystr
  institution :: pystr
  year :: pystr

record contact_dict =
  email :: pystr
  name :: pystr

record AIGenerateInput =
  name :: pystr
  skills :: "pystr list"
  education :: "pystr list"
  projects :: "pystr list"
  experience :: "pystr list"
  achievements :: "pystr list"
  contact_email :: "pystr option"
  tone :: pystr

record AIGenerateResult =
  summary :: pystr
  skills :: "pystr list"
  projects :: "project_dict list"
  experience :: "experience_dict list"
  education :: "education_dict list"
  achievements :: "pystr list"
  contact :: contact_dict
  suggestions :: "pystr list"

definition summary_prompt :: "pystr \<Rightarrow> pystr \<Rightarrow> pystr \<Rightarrow> pystr" where
  "summary_prompt tone_str name_str skills_str =
     str ''Write a '' @ tone_str @ str '' 3-4 sentence professional summary for '' @ name_str @
     str ''. '' @ str ''Highlight strengths from skills: '' @ skills_str @
     str ''. Audience: recruiters and hiring managers.''"

definition suggestions_prompt :: pystr where
  "suggestions_prompt =
     str ''Given the user'' @ [39] @
     str ''s inputs (skills, projects, experience, education), suggest 5 concise improvements '' @
     str ''that strengthen clarity, impact, and ATS readiness. Use imperative tone.''"

text \<open>The argument of \<open>strip\<close> in the suggestions line: dash, space, bullet U+2022, space.\<close>

definition bullet_chars :: pystr where
  "bullet_chars = [45, 32, 8226, 32]"

text \<open>
  \<open>[s.strip(chars) for s in suggestions_text.split("\n") if s.strip()][:5]\<close>, where
  \<open>chars\<close> is the string of \<open>bullet_chars\<close>.
\<close>

definition suggestions_of :: "pystr \<Rightarrow> pystr list" where
  "suggestions_of suggestions_text =
     take 5 (map (py_strip_chars bullet_chars)
               (filter (\<lambda>s. py_strip s \<noteq> []) (py_split [10] suggestions_text)))"

text \<open>
  \<open>p.split(sep)[0]\<close>; \<open>split\<close> never returns an empty list, so the index does not raise.
\<close>

definition split_first :: "pystr \<Rightarrow> pystr \<Rightarrow> pystr" where
  "split_first sep p = (case py_split sep p of [] \<Rightarrow> [] | piece # pieces \<Rightarrow> piece)"

definition projects_struct :: "pystr list \<Rightarrow> project_dict list" where
  "projects_struct ps =
     map (\<lambda>p. \<lparr>title = split_first (str '' - '') p, description = p, impact = []\<rparr>) ps"

definition experience_struct :: "pystr list \<Rightarrow> experience_dict list" where
  "experience_struct es =
     map (\<lambda>e. \<lparr>role = split_first (str '' at '') e, details = e,
               experience_dict.achievements = []\<rparr>) es"

definition education_struct :: "pystr list \<Rightarrow> education_dict list" where
  "education_struct es = map (\<lambda>e. \<lparr>program = e, institution = [], year = []\<rparr>) es"

text \<open>
  \<open>generate_portfolio\<close>. The two outcomes are those of the request of the first and of
  the second \<open>call_llm\<close>. The three \<open>..._bullets\<close> strings of the source are never used and
  are left out. \<open>call_llm\<close> can hand back a JSON value that is no string: then
  \<open>suggestions_text.split\<close> raises AttributeError, and a summary that is no string fails
  the validation of \<open>AIGenerateResult\<close>, whose \<open>summary\<close> is a \<open>str\<close>.
\<close>

definition generate_portfolio ::
    "config \<Rightarrow> post_outcome \<Rightarrow> post_outcome \<Rightarrow> AIGenerateInput \<Rightarrow> error + AIGenerateResult" where
  "generate_portfolio cfg outcome1 outcome2 data =
     (let name_str = py_strip (AIGenerateInput.name data) in
      if name_str = [] then Inl (HTTPException 400 (str ''Name is required''))
      else
        let joined = py_join (str '', '') (AIGenerateInput.skills data);
            skills_str = (if joined = [] then str ''(skills not provided)'' else joined)
        in
        (case call_llm cfg outcome1 (summary_prompt (tone data) name_str skills_str) of
           Inl e \<Rightarrow> Inl e
         | Inr summary_val \<Rightarrow>
             (case call_llm cfg outcome2 suggestions_prompt of
                Inl e \<Rightarrow> Inl e
              | Inr (PStr suggestions_text) \<Rightarrow>
                  (case summary_val of
                     PStr summary_str \<Rightarrow>
                       Inr \<lparr>summary = summary_str,
                            skills = AIGenerateInput.skills data,
                            projects = projects_struct (AIGenerateInput.projects data),
                            experience = experience_struct (AIGenerateInput.experience data),
                            education = education_struct (AIGenerateInput.education data),
                            achievements = AIGenerateInput.achievements data,
                            contact =
                              \<lparr>email = (case contact_email data of None \<Rightarrow> [] | Some e \<Rightarrow> e),
                               contact_dict.name = name_str\<rparr>,
                            suggestions = suggestions_of suggestions_text\<rparr>
                   | _ \<Rightarrow> Inl ValidationError)
              | Inr _ \<Rightarrow> Inl AttributeError)))"

text \<open>
  The words of the specification for the title and the role: the text before the first
  occurrence of the delimiter, or the whole string when the delimiter does not occur.
\<close>

definition occurs_at :: "pystr \<Rightarrow> pystr \<Rightarrow> nat \<Rightarrow> bool" where
  "occurs_at sep s i \<longleftrightarrow> i + length sep \<le> length s \<and> take (length sep) (drop i s) = sep"

definition first_occurrence :: "pystr \<Rightarrow> pystr \<Rightarrow> nat option" where
  "first_occurrence sep s = find (occurs_at sep s) [0..<Suc (length s)]"

definition text_before_first :: "pystr \<Rightarrow> pystr \<Rightarrow> pystr" where
  "text_before_first sep s = (case first_occurrence sep s of None \<Rightarrow> s | Some i \<Rightarrow> take i s)"

section \<open>Portfolio persistence\<close>

record PortfolioSection =
  key :: pystr
  title :: pystr
  content :: pyval

record SavePortfolioRequest =
  owner_email :: pystr
  username :: pystr
  name :: pystr
  theme :: pystr
  dark_mode :: bool
  sections :: "PortfolioSection list"
  seo_title :: "pystr option"
  seo_description :: "pystr option"
  assets :: "(pystr \<times> pyval) list"

text \<open>
  Modelled from the spec: \<open>database.py\<close> (\<open>db\<close>, \<open>create_document\<close>, \<open>get_documents\<close>) is
  not among the sources. The specification gives the adapter's contract:
  \<open>createDocument(collection, document) -> id\<close>, a durable write, and
  \<open>getDocuments(collection, filter) -> ordered sequence of documents (insertion order)\<close>,
  a lookup by exact match; either surfaces the store's errors. The program uses them on
  the collection \<open>portfolio\<close> with the filter \<open>{"username": u}\<close> only, so the store is
  that collection in insertion order and the generator of ids, a counter. An id is kept
  abstract: \<open>str\<close> of it is not modelled.
\<close>

type_synonym objid = nat

record document =
  doc_id :: objid
  doc :: SavePortfolioRequest

record store =
  portfolio :: "document list"
  next_id :: objid

definition empty_store :: store where
  "empty_store = \<lparr>portfolio = [], next_id = 0\<rparr>"

text \<open>Whether one call of the store does its work or raises.\<close>

datatype io = Works | Raises

text \<open>
  Modelled from the spec: \<open>get_documents("portfolio", {"username": u})\<close>, the documents
  whose username is \<open>u\<close>, in insertion order.
\<close>

definition get_documents :: "io \<Rightarrow> pystr \<Rightarrow> store \<Rightarrow> error + document list" where
  "get_documents q u db =
     (case q of
        Raises \<Rightarrow> Inl StoreError
      | Works \<Rightarrow> Inr (filter (\<lambda>d. username (doc d) = u) (portfolio db)))"

text \<open>
  Modelled from the spec: \<open>create_document("portfolio", document)\<close> appends the document
  under a generated id and returns the id; a call that raises has written nothing.
\<close>

definition create_document :: "io \<Rightarrow> SavePortfolioRequest \<Rightarrow> store \<Rightarrow> (error + objid) \<times> store" where
  "create_document c p db =
     (case c of
        Raises \<Rightarrow> (Inl StoreError, db)
      | Works \<Rightarrow>
          (Inr (next_id db),
           db\<lparr>portfolio := portfolio db @ [\<lparr>doc_id = next_id db, doc = p\<rparr>],
              next_id := Suc (next_id db)\<rparr>))"

text \<open>
  Modelled from the spec: \<open>db.portfolio.delete_many({"username": u})\<close> deletes all
  matching documents. A call that raises may have removed some of them before: the
  outcome names those it removed (none, when the store was not reached or the import
  in front of the call failed).
\<close>

datatype delete_outcome = DeleteCompletes | DeleteRaises "document \<Rightarrow> bool"

definition delete_many :: "delete_outcome \<Rightarrow> pystr \<Rightarrow> store \<Rightarrow> (error + unit) \<times> store" where
  "delete_many d u db =
     (case d of
        DeleteCompletes \<Rightarrow>
          (Inr (), db\<lparr>portfolio := filter (\<lambda>x. username (doc x) \<noteq> u) (portfolio db)\<rparr>)
      | DeleteRaises removed \<Rightarrow>
          (Inl StoreError,
           db\<lparr>portfolio := filter (\<lambda>x. username (doc x) \<noteq> u \<or> \<not> removed x) (portfolio db)\<rparr>))"

text \<open>What the three store calls of one \<open>save_portfolio\<close> do.\<close>

record save_env =
  query_io :: io
  delete_io :: delete_outcome
  create_io :: io

record save_response =
  pid :: objid
  username :: pystr

text \<open>
  \<open>save_portfolio\<close>: an exception of the query or of the insert leaves the function; the
  \<open>try\<close> around the delete ends in \<open>except Exception: pass\<close>, so its exception is dropped
  and the insert follows in either case.
\<close>

definition save_portfolio ::
    "save_env \<Rightarrow> SavePortfolioRequest \<Rightarrow> store \<Rightarrow> (error + save_response) \<times> store" where
  "save_portfolio env payload db =
     (case get_documents (query_io env) (SavePortfolioRequest.username payload) db of
        Inl e \<Rightarrow> (Inl e, db)
      | Inr exists \<Rightarrow>
          let db1 = (if exists \<noteq> []
                     then snd (delete_many (delete_io env) (SavePortfolioRequest.username payload) db)
                     else db)
          in (case create_document (create_io env) payload db1 of
                (Inl e, db2) \<Rightarrow> (Inl e, db2)
              | (Inr new_id, db2) \<Rightarrow>
                  (Inr \<lparr>pid = new_id,
                       save_response.username = SavePortfolioRequest.username payload\<rparr>, db2)))"

text \<open>
  \<open>get_portfolio\<close>: \<open>docs[-1]\<close> of a non-empty list is its last element. The store is
  only read.
\<close>

definition get_portfolio :: "io \<Rightarrow> pystr \<Rightarrow> store \<Rightarrow> error + document" where
  "get_portfolio q u db =
     (case get_documents q u db of
        Inl e \<Rightarrow> Inl e
      | Inr docs \<Rightarrow>
          if docs = [] then Inl (HTTPException 404 (str ''Portfolio not found''))
          else Inr (last docs))"

definition public_portfolio :: "io \<Rightarrow> pystr \<Rightarrow> store \<Rightarrow> error + document" where
  "public_portfolio q u db = get_portfolio q u db"

text \<open>A sequence of save requests, one after the other, each with its own store outcomes.\<close>

fun run_saves :: "(save_env \<times> SavePortfolioRequest) list \<Rightarrow> store \<Rightarrow> store" where
  "run_saves [] db = db"
| "run_saves ((env, payload) # rest) db = run_saves rest (snd (save_portfolio env payload db))"

section \<open>Example inputs\<close>

definition no_provider :: config where
  "no_provider = \<lparr>AI_PROVIDER_URL = None, AI_API_KEY = None\<rparr>"

definition a_provider :: config where
  "a_provider =
     \<lparr>AI_PROVIDER_URL = Some (str ''https://llm.example/v1''), AI_API_KEY = Some (str ''key'')\<rparr>"


definition ann :: AIGenerateInput where
  "ann = \<lparr>AIGenerateInput.name = str '' Ann Lee '',
          AIGenerateInput.skills = [str ''Python'', str ''SQL''],
          AIGenerateInput.education = [str ''BSc Physics''],
          AIGenerateInput.projects = [str ''Build App - a web app'', str ''Compiler''],
          AIGenerateInput.experience = [str ''Engineer at Acme''],
          AIGenerateInput.achievements = [str ''Dean list''],
          contact_email = None,
          tone = str ''professional''\<rparr>"

definition blank_ann :: AIGenerateInput where
  "blank_ann = ann\<lparr>AIGenerateInput.name := [32, 9, 160]\<rparr>"

text \<open>
  A provider that answers the request with \<open>{"text": "-\nAdd metrics"}\<close>: two lines, the
  first a lone dash.
\<close>

definition dash_text :: pystr where
  "dash_text = str ''-'' @ [10] @ str ''Add metrics''"

definition dash_reply :: post_outcome where
  "dash_reply = PostReturns \<lparr>ok = True, json = Some (PDict [(str ''text'', PStr dash_text)])\<rparr>"

text \<open>What \<open>generate_portfolio\<close> returns for \<open>ann\<close> without a provider.\<close>

definition ann_result :: AIGenerateResult where
  "ann_result =
     \<lparr>summary = fallback_draft,
      skills = [str ''Python'', str ''SQL''],
      projects =
        [\<lparr>project_dict.title = str ''Build App'', description = str ''Build App - a web app'', impact = []\<rparr>,
         \<lparr>project_dict.title = str ''Compiler'', description = str ''Compiler'', impact = []\<rparr>],
      experience =
        [\<lparr>role = str ''Engineer'', details = str ''Engineer at Acme'', experience_dict.achievements = []\<rparr>],
      education = [\<lparr>program = str ''BSc Physics'', institution = [], year = []\<rparr>],
      achievements = [str ''Dean list''],
      contact = \<lparr>email = [], contact_dict.name = str ''Ann Lee''\<rparr>,
      suggestions = [fallback_draft]\<rparr>"


text \<open>A store whose three calls all do their work.\<close>

definition functioning :: "save_env \<Rightarrow> bool" where
  "functioning env \<longleftrightarrow>
     query_io env = Works \<and> delete_io env = DeleteCompletes \<and> create_io env = Works"

definition all_works :: save_env where
  "all_works = \<lparr>query_io = Works, delete_io = DeleteCompletes, create_io = Works\<rparr>"

text \<open>A store that is reached for the query and the insert while the delete raises at once.\<close>

definition delete_fails :: save_env where
  "delete_fails = \<lparr>query_io = Works, delete_io = DeleteRaises (\<lambda>d. False), create_io = Works\<rparr>"

definition alice_v1 :: SavePortfolioRequest where
  "alice_v1 =
     \<lparr>owner_email = str ''alice@example.com'',
      SavePortfolioRequest.username = str ''alice'',
      SavePortfolioRequest.name = str ''Alice'',
      theme = str ''modern'',
      dark_mode = False,
      sections = [\<lparr>key = str ''summary'', PortfolioSection.title = str ''About'',
                    content = PStr (str ''First draft'')\<rparr>],
      seo_title = None,
      seo_description = None,
      assets = []\<rparr>"

definition alice_v2 :: SavePortfolioRequest where
  "alice_v2 = alice_v1\<lparr>theme := str ''dark'', dark_mode := True, sections := []\<rparr>"

definition bob :: SavePortfolioRequest where
  "bob = alice_v1\<lparr>owner_email := str ''bob@example.com'',
                   SavePortfolioRequest.username := str ''bob'',
                   SavePortfolioRequest.name := str ''Bob''\<rparr>"

text \<open>The store after one working save of \<open>alice_v1\<close> into the empty store.\<close>

definition alice_store :: store where
  "alice_store = \<lparr>portfolio = [\<lparr>doc_id = 0, doc = alice_v1\<rparr>], next_id = 1\<rparr>"

text \<open>A provider that answers the request with \<open>{"text": 5}\<close>: a text that is no string.\<close>

definition five_reply :: post_outcome where
  "five_reply = PostReturns \<lparr>ok = True, json = Some (PDict [(str ''text'', PInt 5)])\<rparr>"

section \<open>Properties\<close>

subsection \<open>The text-generation client\<close>

lemma absent_not_configured:
  "AI_PROVIDER_URL cfg = None \<or> AI_API_KEY cfg = None \<Longrightarrow> \<not> configured cfg"
  by (auto simp: configured_def split: option.splits)

text \<open>
  C4. Without a configured provider (the URL or the key is absent, which by
  \<open>absent_not_configured\<close> is a case of \<open>\<not> configured\<close>; an empty value counts as absent
  too), \<open>call_llm\<close> returns the fixed fallback string, and the same value whatever the
  prompt is and whatever a request would have done.
\<close>

theorem call_llm_unconfigured:
  assumes "\<not> configured cfg"
  shows "call_llm cfg outcome prompt = Inr (PStr fallback_draft) \<and>
         call_llm cfg outcome' prompt' = call_llm cfg outcome prompt"
  using assms by (simp add: call_llm_def)

theorem call_llm_unconfigured_witness:
  "\<not> configured no_provider \<and>
   call_llm no_provider PostRaises (str ''Write a summary'') = Inr (PStr fallback_draft) \<and>
   call_llm no_provider (PostReturns \<lparr>ok = True, json = None\<rparr>) (str ''other'')
     = call_llm no_provider PostRaises (str ''Write a summary'')"
proof -
  have h: "\<not> configured no_provider"
    by (simp add: configured_def no_provider_def)
  show ?thesis
    using h call_llm_unconfigured [OF h, of PostRaises "str ''Write a summary''"
        "PostReturns \<lparr>ok = True, json = None\<rparr>" "str ''other''"]
    by simp
qed

lemma call_llm_try_not_ok:
  "\<not> ok resp \<Longrightarrow> call_llm_try (PostReturns resp) prompt = Inr (PStr (unavailable_draft prompt))"
  by (simp add: call_llm_try_def)

lemma call_llm_try_post_raises: "call_llm_try PostRaises prompt = Inl RequestException"
  by (simp add: call_llm_try_def)

lemma call_llm_try_json_raises:
  "ok resp \<Longrightarrow> json resp = None \<Longrightarrow> call_llm_try (PostReturns resp) prompt = Inl JSONDecodeError"
  by (simp add: call_llm_try_def)

lemma call_llm_returns: "\<exists>v. call_llm cfg outcome prompt = Inr v"
  by (simp add: call_llm_def split: sum.splits)

text \<open>
  C5. With a configured provider, for every prompt: a response with an unsuccessful
  status makes \<open>call_llm\<close> return the prompt cut to 280 characters behind the prefix
  \<open>Draft (AI service unavailable): \<close>; every exception raised inside the \<open>try\<close> block
  makes it return the cut prompt behind \<open>Draft (AI error): \<close>, and a request that
  raises (transport) or a body that does not parse are such exceptions; and whatever the
  request does, \<open>call_llm\<close> returns a value and raises nothing. Both echoes end in the
  three dots the source appends behind the cut prompt.
\<close>

theorem call_llm_absorbs_failures:
  assumes "configured cfg"
  shows "(\<forall>resp. outcome = PostReturns resp \<and> \<not> ok resp \<longrightarrow>
            call_llm cfg outcome prompt =
              Inr (PStr (str ''Draft (AI service unavailable): '' @ take 280 prompt @ str ''...''))) \<and>
         (\<forall>e. call_llm_try outcome prompt = Inl e \<longrightarrow>
            call_llm cfg outcome prompt =
              Inr (PStr (str ''Draft (AI error): '' @ take 280 prompt @ str ''...''))) \<and>
         (outcome = PostRaises \<longrightarrow> (\<exists>e. call_llm_try outcome prompt = Inl e)) \<and>
         (\<forall>resp. outcome = PostReturns resp \<and> ok resp \<and> json resp = None \<longrightarrow>
            (\<exists>e. call_llm_try outcome prompt = Inl e)) \<and>
         (\<exists>v. call_llm cfg outcome prompt = Inr v)"
proof (intro conjI allI impI)
  fix resp assume "outcome = PostReturns resp \<and> \<not> ok resp"
  then show "call_llm cfg outcome prompt =
      Inr (PStr (str ''Draft (AI service unavailable): '' @ take 280 prompt @ str ''...''))"
    using assms by (simp add: call_llm_def call_llm_try_not_ok unavailable_draft_def)
next
  fix e assume "call_llm_try outcome prompt = Inl e"
  then show "call_llm cfg outcome prompt =
      Inr (PStr (str ''Draft (AI error): '' @ take 280 prompt @ str ''...''))"
    using assms by (simp add: call_llm_def error_draft_def)
next
  assume "outcome = PostRaises"
  then show "\<exists>e. call_llm_try outcome prompt = Inl e"
    by (simp add: call_llm_try_post_raises)
next
  fix resp assume "outcome = PostReturns resp \<and> ok resp \<and> json resp = None"
  then show "\<exists>e. call_llm_try outcome prompt = Inl e"
    by (simp add: call_llm_try_json_raises)
next
  show "\<exists>v. call_llm cfg outcome prompt = Inr v"
    by (rule call_llm_returns)
qed

theorem call_llm_absorbs_failures_witness:
  "configured a_provider \<and>
   call_llm a_provider (PostReturns \<lparr>ok = False, json = None\<rparr>) (str ''Hi'')
     = Inr (PStr (str ''Draft (AI service unavailable): Hi...'')) \<and>
   call_llm a_provider PostRaises (str ''Hi'') = Inr (PStr (str ''Draft (AI error): Hi...'')) \<and>
   call_llm a_provider (PostReturns \<lparr>ok = True, json = None\<rparr>) (str ''Hi'')
     = Inr (PStr (str ''Draft (AI error): Hi...'')) \<and>
   call_llm a_provider (PostReturns \<lparr>ok = True, json = Some (PList [])\<rparr>) (str ''Hi'')
     = Inr (PStr (str ''Draft (AI error): Hi...''))"
proof -
  have h: "configured a_provider"
    by (simp add: configured_def a_provider_def str_def)
  have t: "call_llm_try (PostReturns \<lparr>ok = True, json = Some (PList [])\<rparr>) (str ''Hi'')
             = Inl AttributeError"
    by (simp add: call_llm_try_def py_get_def)
  show ?thesis
    using h
      call_llm_absorbs_failures [OF h, of "PostReturns \<lparr>ok = False, json = None\<rparr>" "str ''Hi''"]
      call_llm_absorbs_failures [OF h, of PostRaises "str ''Hi''"]
      call_llm_absorbs_failures [OF h, of "PostReturns \<lparr>ok = True, json = None\<rparr>" "str ''Hi''"]
      call_llm_absorbs_failures [OF h, of "PostReturns \<lparr>ok = True, json = Some (PList [])\<rparr>" "str ''Hi''"]
      t
    by (auto simp: str_def)
qed

subsection \<open>Strings: stripping and splitting\<close>

lemma strip_by_eq_Nil: "strip_by P s = [] \<longleftrightarrow> (\<forall>c \<in> set s. P c)"
proof -
  have "dropWhile P (rev (dropWhile P s)) = [] \<longleftrightarrow> dropWhile P s = []"
  proof
    assume a: "dropWhile P (rev (dropWhile P s)) = []"
    show "dropWhile P s = []"
    proof (rule ccontr)
      assume n: "dropWhile P s \<noteq> []"
      then have "\<not> P (hd (dropWhile P s))" by (rule hd_dropWhile)
      moreover have "hd (dropWhile P s) \<in> set (rev (dropWhile P s))" using n by simp
      ultimately show False using a by (auto simp: dropWhile_eq_Nil_conv)
    qed
  next
    assume e: "dropWhile P s = []"
    show "dropWhile P (rev (dropWhile P s)) = []" unfolding e by simp
  qed
  moreover have "strip_by P s = [] \<longleftrightarrow> dropWhile P (rev (dropWhile P s)) = []"
    by (simp add: strip_by_def)
  moreover have "dropWhile P s = [] \<longleftrightarrow> (\<forall>c \<in> set s. P c)"
    by (rule dropWhile_eq_Nil_conv)
  ultimately show ?thesis by blast
qed



lemma strip_by_no_trailing: "strip_by P s = rest @ [c] \<Longrightarrow> \<not> P c"
proof -
  assume a: "strip_by P s = rest @ [c]"
  have "rev (strip_by P s) = dropWhile P (rev (dropWhile P s))"
    by (simp add: strip_by_def)
  then have "dropWhile P (rev (dropWhile P s)) = c # rev rest"
    using a by simp
  then have "dropWhile P (rev (dropWhile P s)) \<noteq> []"
    and "hd (dropWhile P (rev (dropWhile P s))) = c"
    by simp_all
  then show "\<not> P c" using hd_dropWhile by metis
qed

lemma py_split_not_Nil: "py_split sep s \<noteq> []"
  by (induction sep s rule: py_split.induct) (auto split: list.splits)

lemma split_first_Nil: "split_first sep [] = []"
  by (simp add: split_first_def)

lemma split_first_Cons:
  "split_first sep (c # cs) =
     (if sep \<noteq> [] \<and> take (length sep) (c # cs) = sep then [] else c # split_first sep cs)"
  using py_split_not_Nil [of sep cs] by (auto simp: split_first_def split: list.splits)

lemma occurs_at_0: "occurs_at sep s 0 \<longleftrightarrow> take (length sep) s = sep"
proof
  assume "occurs_at sep s 0"
  then show "take (length sep) s = sep" by (simp add: occurs_at_def)
next
  assume t: "take (length sep) s = sep"
  have "length (take (length sep) s) \<le> length s" by simp
  then have "length sep \<le> length s" unfolding t .
  then show "occurs_at sep s 0" using t by (simp add: occurs_at_def)
qed

lemma occurs_at_Suc: "occurs_at sep (c # cs) (Suc i) \<longleftrightarrow> occurs_at sep cs i"
  by (simp add: occurs_at_def)

lemma find_map_Suc: "find P (map Suc xs) = map_option Suc (find (\<lambda>i. P (Suc i)) xs)"
  by (induction xs) auto

lemma first_occurrence_Cons:
  "first_occurrence sep (c # cs) =
     (if occurs_at sep (c # cs) 0 then Some 0 else map_option Suc (first_occurrence sep cs))"
proof -
  have u: "[0..<Suc (length (c # cs))] = 0 # map Suc [0..<Suc (length cs)]"
    by (metis length_Cons map_Suc_upt upt_conv_Cons zero_less_Suc)
  have "first_occurrence sep (c # cs) = find (occurs_at sep (c # cs)) (0 # map Suc [0..<Suc (length cs)])"
    unfolding first_occurrence_def u ..
  also have "\<dots> = (if occurs_at sep (c # cs) 0 then Some 0
      else map_option Suc (find (occurs_at sep cs) [0..<Suc (length cs)]))"
    by (simp only: find.simps find_map_Suc occurs_at_Suc)
  finally show ?thesis by (simp only: first_occurrence_def)
qed

lemma split_first_before_first:
  "sep \<noteq> [] \<Longrightarrow> split_first sep s = text_before_first sep s"
proof (induction s)
  case Nil
  then show ?case
    by (simp add: split_first_Nil text_before_first_def first_occurrence_def occurs_at_def)
next
  case (Cons c cs)
  then show ?case
    by (auto simp: split_first_Cons text_before_first_def first_occurrence_Cons occurs_at_0
        split: option.splits)
qed

subsection \<open>The generation endpoint\<close>

lemma generate_portfolio_result:
  assumes "generate_portfolio cfg outcome1 outcome2 data = Inr r"
  shows "\<exists>s t. call_llm cfg outcome2 suggestions_prompt = Inr (PStr t) \<and>
           r = \<lparr>summary = s,
                skills = AIGenerateInput.skills data,
                projects = projects_struct (AIGenerateInput.projects data),
                experience = experience_struct (AIGenerateInput.experience data),
                education = education_struct (AIGenerateInput.education data),
                achievements = AIGenerateInput.achievements data,
                contact =
                  \<lparr>email = (case contact_email data of None \<Rightarrow> [] | Some e \<Rightarrow> e),
                   contact_dict.name = py_strip (AIGenerateInput.name data)\<rparr>,
                suggestions = suggestions_of t\<rparr>"
  using assms
  by (auto simp: generate_portfolio_def Let_def split: if_splits sum.splits pyval.splits)

lemma generate_portfolio_unconfigured:
  assumes "py_strip (AIGenerateInput.name data) \<noteq> []" and "\<not> configured cfg"
  shows "\<exists>r. generate_portfolio cfg outcome1 outcome2 data = Inr r \<and>
              summary r = fallback_draft \<and> suggestions r = suggestions_of fallback_draft"
  using assms by (simp add: generate_portfolio_def Let_def call_llm_def)

lemma py_strip_blank: "(\<forall>c \<in> set s. py_isspace c) \<Longrightarrow> py_strip s = []"
  by (simp add: py_strip_def strip_by_eq_Nil)

text \<open>
  C3. When the name is empty or consists of white space only, \<open>generate_portfolio\<close>
  raises the HTTPException with status 400 and returns no result, whatever the provider
  would do.
\<close>

theorem generate_rejects_blank_name:
  assumes "\<forall>c \<in> set (AIGenerateInput.name data). py_isspace c"
  shows "generate_portfolio cfg outcome1 outcome2 data
           = Inl (HTTPException 400 (str ''Name is required''))"
  using assms by (simp add: generate_portfolio_def py_strip_blank)

theorem generate_rejects_blank_name_witness:
  "list_all py_isspace (AIGenerateInput.name blank_ann) \<and>
   generate_portfolio a_provider dash_reply dash_reply blank_ann
     = Inl (HTTPException 400 (str ''Name is required''))"
proof -
  have h: "\<forall>c \<in> set (AIGenerateInput.name blank_ann). py_isspace c"
    by (simp add: blank_ann_def py_isspace_def)
  show ?thesis
    using h generate_rejects_blank_name [OF h, of a_provider dash_reply dash_reply]
    by (simp add: list_all_iff)
qed

lemma py_strip_ann: "py_strip (AIGenerateInput.name ann) = str ''Ann Lee''"
  by (simp add: ann_def py_strip_def strip_by_def str_def py_isspace_def)

lemma py_split_no_sep: "c \<notin> set s \<Longrightarrow> py_split [c] s = [s]"
  by (induction s) auto

lemma strip_by_id: "s \<noteq> [] \<Longrightarrow> \<not> P (hd s) \<Longrightarrow> \<not> P (last s) \<Longrightarrow> strip_by P s = s"
proof -
  assume n: "s \<noteq> []" and h: "\<not> P (hd s)" and l: "\<not> P (last s)"
  have d: "dropWhile P s = s" using n h by (cases s) simp_all
  have "rev s \<noteq> []" and "\<not> P (hd (rev s))" using n l by (simp_all add: hd_rev)
  then have "dropWhile P (rev s) = rev s" by (cases "rev s") simp_all
  then show ?thesis by (simp add: strip_by_def d)
qed

lemma fallback_draft_ends:
  "fallback_draft \<noteq> []" "hd fallback_draft = 80" "last fallback_draft = 46"
  by (simp_all add: fallback_draft_def str_def)

lemma fallback_draft_one_line: "10 \<notin> set fallback_draft"
  by (simp add: fallback_draft_def str_def)

lemma suggestions_of_fallback_draft: "suggestions_of fallback_draft = [fallback_draft]"
proof -
  have "py_strip fallback_draft = fallback_draft"
    unfolding py_strip_def
    by (rule strip_by_id) (simp_all add: fallback_draft_ends py_isspace_def)
  moreover have "py_strip_chars bullet_chars fallback_draft = fallback_draft"
    unfolding py_strip_chars_def
    by (rule strip_by_id) (simp_all add: fallback_draft_ends bullet_chars_def)
  ultimately show ?thesis
    by (simp add: suggestions_of_def py_split_no_sep fallback_draft_one_line fallback_draft_ends)
qed

lemma split_first_build_app: "split_first (str '' - '') (str ''Build App - a web app'') = str ''Build App''"
  by (simp add: split_first_Cons split_first_Nil str_def)

lemma split_first_compiler: "split_first (str '' - '') (str ''Compiler'') = str ''Compiler''"
  by (simp add: split_first_Cons split_first_Nil str_def)

lemma split_first_engineer: "split_first (str '' at '') (str ''Engineer at Acme'') = str ''Engineer''"
  by (simp add: split_first_Cons split_first_Nil str_def)

lemma generate_portfolio_ann:
  "generate_portfolio no_provider PostRaises PostRaises ann = Inr ann_result"
proof -
  have c: "\<not> configured no_provider" by (simp add: configured_def no_provider_def)
  have f: "AIGenerateInput.skills ann = [str ''Python'', str ''SQL'']"
    "AIGenerateInput.projects ann = [str ''Build App - a web app'', str ''Compiler'']"
    "AIGenerateInput.experience ann = [str ''Engineer at Acme'']"
    "AIGenerateInput.education ann = [str ''BSc Physics'']"
    "AIGenerateInput.achievements ann = [str ''Dean list'']"
    "contact_email ann = None"
    by (simp_all add: ann_def)
  have n: "str ''Ann Lee'' \<noteq> []" by (simp add: str_def)
  show ?thesis
    unfolding generate_portfolio_def Let_def py_strip_ann call_llm_def f
    by (simp add: c n suggestions_of_fallback_draft ann_result_def projects_struct_def
        experience_struct_def education_struct_def split_first_build_app split_first_compiler
        split_first_engineer)
qed

text \<open>
  Every result of \<open>generate_portfolio\<close> carries the \<open>skills\<close> and the \<open>achievements\<close> of the
  input, unchanged.
\<close>

lemma generate_echoes_skills:
  assumes "py_strip (AIGenerateInput.name data) \<noteq> []"
      and "generate_portfolio cfg outcome1 outcome2 data = Inr r"
  shows "AIGenerateResult.skills r = AIGenerateInput.skills data \<and>
         AIGenerateResult.achievements r = AIGenerateInput.achievements data"
  using generate_portfolio_result [OF assms(2)] by auto

lemma generate_echoes_skills_ann:
  "py_strip (AIGenerateInput.name ann) \<noteq> [] \<and>
   generate_portfolio no_provider PostRaises PostRaises ann = Inr ann_result \<and>
   AIGenerateResult.skills ann_result = [str ''Python'', str ''SQL''] \<and>
   AIGenerateResult.achievements ann_result = [str ''Dean list'']"
proof -
  have h: "py_strip (AIGenerateInput.name ann) \<noteq> []"
    by (simp add: py_strip_ann str_def)
  show ?thesis
    using h generate_portfolio_ann generate_echoes_skills [OF h generate_portfolio_ann]
    by (simp add: ann_def)
qed

lemma first_occurrence_None:
  "first_occurrence sep s = None \<Longrightarrow> \<not> occurs_at sep s i"
proof -
  assume n: "first_occurrence sep s = None"
  show "\<not> occurs_at sep s i"
  proof
    assume o: "occurs_at sep s i"
    then have "i \<le> length s" by (simp add: occurs_at_def)
    then have "i \<in> set [0..<Suc (length s)]" by auto
    then show False using n o by (auto simp: first_occurrence_def find_None_iff)
  qed
qed

lemma first_occurrence_Some:
  assumes "first_occurrence sep s = Some i"
  shows "occurs_at sep s i \<and> (\<forall>j<i. \<not> occurs_at sep s j) \<and>
         (\<exists>rest. s = take i s @ sep @ rest)"
proof -
  from assms obtain k where k: "k < length [0..<Suc (length s)]"
      "occurs_at sep s ([0..<Suc (length s)] ! k)" "i = [0..<Suc (length s)] ! k"
      "\<forall>j<k. \<not> occurs_at sep s ([0..<Suc (length s)] ! j)"
    unfolding first_occurrence_def find_Some_iff by blast
  have ki: "k = i" using k(1,3) by (metis nth_upt add_0 length_upt minus_nat.diff_0)
  have o: "occurs_at sep s i" using k(2,3) by simp
  have m: "\<forall>j<i. \<not> occurs_at sep s j"
  proof (intro allI impI)
    fix j assume "j < i"
    then have "j < k" using ki by simp
    moreover from this have "[0..<Suc (length s)] ! j = j"
      using k(1) by (metis nth_upt add_0 length_upt minus_nat.diff_0 less_trans)
    ultimately show "\<not> occurs_at sep s j" using k(4) by metis
  qed
  have "s = take i s @ drop i s" by simp
  moreover have "drop i s = take (length sep) (drop i s) @ drop (length sep) (drop i s)"
    by (rule append_take_drop_id [symmetric])
  ultimately have "s = take i s @ sep @ drop (length sep) (drop i s)"
    using o by (metis occurs_at_def)
  then show ?thesis using o m by blast
qed

lemma projects_struct_spec:
  "projects_struct ps =
     map (\<lambda>p. \<lparr>project_dict.title = text_before_first (str '' - '') p, description = p, impact = []\<rparr>) ps"
proof -
  have "str '' - '' \<noteq> []" by (simp add: str_def)
  then show ?thesis by (simp add: projects_struct_def split_first_before_first)
qed

lemma experience_struct_spec:
  "experience_struct es =
     map (\<lambda>e. \<lparr>role = text_before_first (str '' at '') e, details = e,
               experience_dict.achievements = []\<rparr>) es"
proof -
  have "str '' at '' \<noteq> []" by (simp add: str_def)
  then show ?thesis by (simp add: experience_struct_def split_first_before_first)
qed

text \<open>
  Every result of \<open>generate_portfolio\<close> holds for each project string the dict with the
  title \<open>text_before_first " - "\<close> (the text before the first \<open>" - "\<close>, the whole string
  without one: \<open>first_occurrence_Some\<close>, \<open>first_occurrence_None\<close>), the string itself as
  description and an empty impact; for each experience string the role before the first
  \<open>" at "\<close>, the string as details and no achievements; for each education string the
  string as program and an empty institution and year; all in the order of the input.
  \<open>Build App - a web app\<close> gets the title \<open>Build App\<close> and \<open>Engineer at Acme\<close> the role
  \<open>Engineer\<close>.
\<close>

lemma generate_reshapes_sections:
  assumes "py_strip (AIGenerateInput.name data) \<noteq> []"
      and "generate_portfolio cfg outcome1 outcome2 data = Inr r"
  shows "AIGenerateResult.projects r =
           map (\<lambda>p. \<lparr>project_dict.title = text_before_first (str '' - '') p,
                      description = p, impact = []\<rparr>) (AIGenerateInput.projects data) \<and>
         AIGenerateResult.experience r =
           map (\<lambda>e. \<lparr>role = text_before_first (str '' at '') e, details = e,
                      experience_dict.achievements = []\<rparr>) (AIGenerateInput.experience data) \<and>
         AIGenerateResult.education r =
           map (\<lambda>e. \<lparr>program = e, institution = [], year = []\<rparr>) (AIGenerateInput.education data) \<and>
         projects_struct [str ''Build App - a web app''] =
           [\<lparr>project_dict.title = str ''Build App'', description = str ''Build App - a web app'',
             impact = []\<rparr>] \<and>
         experience_struct [str ''Engineer at Acme''] =
           [\<lparr>role = str ''Engineer'', details = str ''Engineer at Acme'',
             experience_dict.achievements = []\<rparr>]"
proof -
  from generate_portfolio_result [OF assms(2)] obtain s t where
    r: "r = \<lparr>summary = s,
                skills = AIGenerateInput.skills data,
                projects = projects_struct (AIGenerateInput.projects data),
                experience = experience_struct (AIGenerateInput.experience data),
                education = education_struct (AIGenerateInput.education data),
                achievements = AIGenerateInput.achievements data,
                contact =
                  \<lparr>email = (case contact_email data of None \<Rightarrow> [] | Some e \<Rightarrow> e),
                   contact_dict.name = py_strip (AIGenerateInput.name data)\<rparr>,
                suggestions = suggestions_of t\<rparr>"
    by blast
  have 1: "AIGenerateResult.projects r = projects_struct (AIGenerateInput.projects data)"
    and 2: "AIGenerateResult.experience r = experience_struct (AIGenerateInput.experience data)"
    and 3: "AIGenerateResult.education r = education_struct (AIGenerateInput.education data)"
    by (simp_all add: r)
  have 4: "projects_struct [str ''Build App - a web app''] =
           [\<lparr>project_dict.title = str ''Build App'', description = str ''Build App - a web app'',
             impact = []\<rparr>]"
    by (simp add: projects_struct_def split_first_build_app)
  have 5: "experience_struct [str ''Engineer at Acme''] =
           [\<lparr>role = str ''Engineer'', details = str ''Engineer at Acme'',
             experience_dict.achievements = []\<rparr>]"
    by (simp add: experience_struct_def split_first_engineer)
  show ?thesis
    unfolding 1 2 3 projects_struct_spec [symmetric] experience_struct_spec [symmetric]
    using 4 5 by (simp add: education_struct_def)
qed

lemma generate_reshapes_sections_ann:
  "py_strip (AIGenerateInput.name ann) \<noteq> [] \<and>
   generate_portfolio no_provider PostRaises PostRaises ann = Inr ann_result \<and>
   AIGenerateResult.projects ann_result =
     [\<lparr>project_dict.title = str ''Build App'', description = str ''Build App - a web app'', impact = []\<rparr>,
      \<lparr>project_dict.title = str ''Compiler'', description = str ''Compiler'', impact = []\<rparr>] \<and>
   text_before_first (str '' - '') (str ''Build App - a web app'') = str ''Build App'' \<and>
   text_before_first (str '' - '') (str ''Compiler'') = str ''Compiler'' \<and>
   text_before_first (str '' at '') (str ''Engineer at Acme'') = str ''Engineer''"
proof -
  have h: "py_strip (AIGenerateInput.name ann) \<noteq> []"
    by (simp add: py_strip_ann str_def)
  have n: "str '' - '' \<noteq> []" "str '' at '' \<noteq> []" by (simp_all add: str_def)
  show ?thesis
    using h generate_portfolio_ann generate_reshapes_sections [OF h generate_portfolio_ann]
    by (simp add: ann_def ann_result_def split_first_before_first [OF n(1), symmetric]
        split_first_before_first [OF n(2), symmetric] split_first_build_app split_first_compiler
        split_first_engineer)
qed

lemma call_llm_dash_reply:
  "call_llm a_provider dash_reply prompt = Inr (PStr dash_text)"
proof -
  have "configured a_provider" by (simp add: configured_def a_provider_def str_def)
  then show ?thesis
    by (simp add: call_llm_def call_llm_try_def dash_reply_def str_def dash_text_def)
qed












text \<open>
  When the name is not blank and both calls of \<open>call_llm\<close> hand back strings, there is a
  result, and it is this one. Without a provider, after a request that raised, after an
  unsuccessful status and after a body that does not parse, \<open>call_llm\<close> hands back a string.
\<close>

lemma generate_portfolio_total_on_strings:
  assumes "py_strip (AIGenerateInput.name data) \<noteq> []"
      and "call_llm cfg outcome1
             (summary_prompt (tone data) (py_strip (AIGenerateInput.name data))
                (if py_join (str '', '') (AIGenerateInput.skills data) = []
                 then str ''(skills not provided)''
                 else py_join (str '', '') (AIGenerateInput.skills data))) = Inr (PStr s)"
      and "call_llm cfg outcome2 suggestions_prompt = Inr (PStr t)"
  shows "generate_portfolio cfg outcome1 outcome2 data =
           Inr \<lparr>summary = s,
                skills = AIGenerateInput.skills data,
                projects = projects_struct (AIGenerateInput.projects data),
                experience = experience_struct (AIGenerateInput.experience data),
                education = education_struct (AIGenerateInput.education data),
                achievements = AIGenerateInput.achievements data,
                contact =
                  \<lparr>email = (case contact_email data of None \<Rightarrow> [] | Some e \<Rightarrow> e),
                   contact_dict.name = py_strip (AIGenerateInput.name data)\<rparr>,
                suggestions = suggestions_of t\<rparr>"
  using assms by (simp add: generate_portfolio_def Let_def)

lemma call_llm_five_reply: "call_llm a_provider five_reply prompt = Inr (PInt 5)"
proof -
  have "configured a_provider" by (simp add: configured_def a_provider_def str_def)
  then show ?thesis
    by (simp add: call_llm_def call_llm_try_def five_reply_def str_def)
qed

text \<open>
  C6 says that every input with a name that is not blank gets a result with the reshaped
  projects, experience and education. \<open>call_llm\<close> is declared to return a \<open>str\<close>, and turns
  every other malformed answer of the provider into a draft string, but it hands back
  \<open>data["text"]\<close> unchecked: for the answer \<open>{"text": 5}\<close> to both requests it returns the
  number 5, \<open>suggestions_text.split\<close> raises AttributeError, and \<open>generate_portfolio\<close> has
  no result for \<open>ann\<close>, whose projects are not reshaped.
\<close>

theorem generate_portfolio_no_sections_for_number_text:
  "py_strip (AIGenerateInput.name ann) = str ''Ann Lee'' \<and>
   AIGenerateInput.projects ann = [str ''Build App - a web app'', str ''Compiler''] \<and>
   call_llm a_provider five_reply suggestions_prompt = Inr (PInt 5) \<and>
   generate_portfolio a_provider five_reply five_reply ann = Inl AttributeError"
proof -
  have n: "str ''Ann Lee'' \<noteq> []" by (simp add: str_def)
  have g: "generate_portfolio a_provider five_reply five_reply ann = Inl AttributeError"
    unfolding generate_portfolio_def Let_def py_strip_ann call_llm_five_reply
    by (simp add: n)
  have f: "AIGenerateInput.projects ann = [str ''Build App - a web app'', str ''Compiler'']"
    by (simp add: ann_def)
  show ?thesis using g f py_strip_ann call_llm_five_reply by simp
qed

text \<open>
  C7 says that every input with a name that is not blank gets a result that carries its
  skills and achievements. With a summary request answered by a string and a suggestions
  request answered by \<open>{"text": 5}\<close>, \<open>call_llm\<close> hands back the number 5 unchecked,
  \<open>suggestions_text.split\<close> raises AttributeError, and \<open>generate_portfolio\<close> has no result
  for \<open>ann\<close>: its skills are not echoed.
\<close>

theorem generate_portfolio_no_echo_for_number_text:
  "py_strip (AIGenerateInput.name ann) = str ''Ann Lee'' \<and>
   AIGenerateInput.skills ann = [str ''Python'', str ''SQL''] \<and>
   call_llm a_provider dash_reply (summary_prompt (tone ann) (str ''Ann Lee'') (str ''Python, SQL''))
     = Inr (PStr dash_text) \<and>
   call_llm a_provider five_reply suggestions_prompt = Inr (PInt 5) \<and>
   generate_portfolio a_provider dash_reply five_reply ann = Inl AttributeError"
proof -
  have n: "str ''Ann Lee'' \<noteq> []" by (simp add: str_def)
  have g: "generate_portfolio a_provider dash_reply five_reply ann = Inl AttributeError"
    unfolding generate_portfolio_def Let_def py_strip_ann call_llm_five_reply call_llm_dash_reply
    by (simp add: n)
  have f: "AIGenerateInput.skills ann = [str ''Python'', str ''SQL'']"
    by (simp add: ann_def)
  show ?thesis using g f py_strip_ann call_llm_five_reply call_llm_dash_reply by simp
qed

subsection \<open>Portfolio persistence\<close>

lemma filter_none_rest: "filter P xs = [] \<Longrightarrow> filter (\<lambda>x. \<not> P x) xs = xs"
  by (induction xs) (auto split: if_splits)

lemma save_portfolio_functioning:
  assumes "functioning env"
  shows "save_portfolio env p db =
           (Inr \<lparr>pid = next_id db, save_response.username = SavePortfolioRequest.username p\<rparr>,
            \<lparr>portfolio =
                 filter (\<lambda>x. SavePortfolioRequest.username (doc x) \<noteq> SavePortfolioRequest.username p)
                   (portfolio db) @ [\<lparr>doc_id = next_id db, doc = p\<rparr>],
             next_id = Suc (next_id db)\<rparr>)"
proof (cases "filter (\<lambda>d. SavePortfolioRequest.username (doc d) = SavePortfolioRequest.username p) (portfolio db) = []")
  case True
  then have "filter (\<lambda>x. SavePortfolioRequest.username (doc x) \<noteq> SavePortfolioRequest.username p)
      (portfolio db) = portfolio db"
    by (rule filter_none_rest)
  then show ?thesis
    using assms True
    by (simp add: functioning_def save_portfolio_def get_documents_def create_document_def)
next
  case False
  then show ?thesis
    using assms
    by (simp add: functioning_def save_portfolio_def get_documents_def create_document_def
        delete_many_def)
qed

text \<open>
  C2. With a store that does its work, from any state of the store: after a save of one
  payload and then a save of a second payload with the same username, reading that
  username returns the document of the second save, with the id that save returned and
  the second payload as its data; it is the only document left under that username, so
  neither the first save's document nor an older one survives.
\<close>

theorem save_twice_then_get:
  assumes "functioning env1" and "functioning env2"
      and "SavePortfolioRequest.username p2 = SavePortfolioRequest.username p1"
  shows "get_portfolio Works (SavePortfolioRequest.username p1)
           (snd (save_portfolio env2 p2 (snd (save_portfolio env1 p1 db))))
           = Inr \<lparr>doc_id = Suc (next_id db), doc = p2\<rparr> \<and>
         filter (\<lambda>d. SavePortfolioRequest.username (doc d) = SavePortfolioRequest.username p1)
           (portfolio (snd (save_portfolio env2 p2 (snd (save_portfolio env1 p1 db)))))
           = [\<lparr>doc_id = Suc (next_id db), doc = p2\<rparr>] \<and>
         fst (save_portfolio env2 p2 (snd (save_portfolio env1 p1 db)))
           = Inr \<lparr>pid = Suc (next_id db),
                  save_response.username = SavePortfolioRequest.username p1\<rparr>"
  unfolding save_portfolio_functioning [OF assms(1)] save_portfolio_functioning [OF assms(2)]
  using assms(3)
  by (simp add: get_portfolio_def get_documents_def)

theorem save_twice_then_get_witness:
  "functioning all_works \<and>
   SavePortfolioRequest.username alice_v2 = SavePortfolioRequest.username alice_v1 \<and>
   get_portfolio Works (str ''alice'')
     (snd (save_portfolio all_works alice_v2 (snd (save_portfolio all_works alice_v1 empty_store))))
     = Inr \<lparr>doc_id = 1, doc = alice_v2\<rparr> \<and>
   filter (\<lambda>d. SavePortfolioRequest.username (doc d) = str ''alice'')
     (portfolio (snd (save_portfolio all_works alice_v2
        (snd (save_portfolio all_works alice_v1 empty_store)))))
     = [\<lparr>doc_id = 1, doc = alice_v2\<rparr>]"
proof -
  have h: "functioning all_works" by (simp add: functioning_def all_works_def)
  have e: "SavePortfolioRequest.username alice_v2 = SavePortfolioRequest.username alice_v1"
    by (simp add: alice_v2_def)
  have u: "SavePortfolioRequest.username alice_v1 = str ''alice''" by (simp add: alice_v1_def)
  show ?thesis
    using h e save_twice_then_get [OF h h e, of empty_store]
    by (simp add: u empty_store_def)
qed

lemma save_portfolio_other_user:
  assumes "\<forall>d \<in> set (portfolio db). SavePortfolioRequest.username (doc d) \<noteq> u"
      and "SavePortfolioRequest.username p \<noteq> u"
  shows "\<forall>d \<in> set (portfolio (snd (save_portfolio env p db))). SavePortfolioRequest.username (doc d) \<noteq> u"
  using assms
  by (cases "query_io env"; cases "delete_io env"; cases "create_io env")
     (auto simp: save_portfolio_def get_documents_def create_document_def delete_many_def Let_def)

lemma run_saves_other_users:
  assumes "\<forall>(env, p) \<in> set saves. SavePortfolioRequest.username p \<noteq> u"
      and "\<forall>d \<in> set (portfolio db). SavePortfolioRequest.username (doc d) \<noteq> u"
  shows "\<forall>d \<in> set (portfolio (run_saves saves db)). SavePortfolioRequest.username (doc d) \<noteq> u"
  using assms
proof (induction saves arbitrary: db)
  case Nil
  then show ?case by simp
next
  case (Cons s saves)
  obtain env p where s: "s = (env, p)" by (cases s)
  have "SavePortfolioRequest.username p \<noteq> u" using Cons.prems(1) s by simp
  then have "\<forall>d \<in> set (portfolio (snd (save_portfolio env p db))).
      SavePortfolioRequest.username (doc d) \<noteq> u"
    using Cons.prems(2) save_portfolio_other_user by blast
  moreover have "\<forall>(env, p) \<in> set saves. SavePortfolioRequest.username p \<noteq> u"
    using Cons.prems(1) by simp
  ultimately show ?case using Cons.IH s by simp
qed

lemma get_portfolio_absent:
  assumes "\<forall>d \<in> set (portfolio db). SavePortfolioRequest.username (doc d) \<noteq> u"
  shows "get_portfolio Works u db = Inl (HTTPException 404 (str ''Portfolio not found''))"
proof -
  have "filter (\<lambda>d. SavePortfolioRequest.username (doc d) = u) (portfolio db) = []"
    using assms by (simp add: filter_empty_conv)
  then show ?thesis by (simp add: get_portfolio_def get_documents_def)
qed

text \<open>
  C8. Starting from the empty store, after any sequence of save requests, whatever
  their store calls did, none of them for the username \<open>u\<close>: reading \<open>u\<close> from a store
  that answers the query raises the HTTPException with status 404.
\<close>

theorem get_portfolio_never_saved:
  assumes "\<forall>(env, p) \<in> set saves. SavePortfolioRequest.username p \<noteq> u"
  shows "get_portfolio Works u (run_saves saves empty_store)
           = Inl (HTTPException 404 (str ''Portfolio not found''))"
proof -
  have "\<forall>d \<in> set (portfolio empty_store). SavePortfolioRequest.username (doc d) \<noteq> u"
    by (simp add: empty_store_def)
  then have "\<forall>d \<in> set (portfolio (run_saves saves empty_store)).
      SavePortfolioRequest.username (doc d) \<noteq> u"
    using assms run_saves_other_users by blast
  then show ?thesis by (rule get_portfolio_absent)
qed

theorem get_portfolio_never_saved_witness:
  "list_all (\<lambda>(env, p). SavePortfolioRequest.username p \<noteq> str ''alice'')
     [(all_works, bob), (delete_fails, bob)] \<and>
   get_portfolio Works (str ''alice'') (run_saves [(all_works, bob), (delete_fails, bob)] empty_store)
     = Inl (HTTPException 404 (str ''Portfolio not found''))"
proof -
  have h: "\<forall>(env, p) \<in> set [(all_works, bob), (delete_fails, bob)].
      SavePortfolioRequest.username p \<noteq> str ''alice''"
    by (simp add: bob_def str_def)
  show ?thesis using h get_portfolio_never_saved [OF h] by (simp add: list_all_iff)
qed

text \<open>
  C9. For every username, every state of the store and every outcome of the query,
  \<open>public_portfolio\<close> returns what \<open>get_portfolio\<close> returns: the same document or the same
  exception.
\<close>

theorem public_portfolio_is_get_portfolio:
  "public_portfolio q u db = get_portfolio q u db"
  by (simp add: public_portfolio_def)



lemma get_portfolio_after_failed_delete:
  "get_portfolio Works (str ''alice'') (snd (save_portfolio delete_fails alice_v2 alice_store))
     = Inr \<lparr>doc_id = 1, doc = alice_v2\<rparr>"
proof -
  have "save_portfolio delete_fails alice_v2 alice_store =
      (Inr \<lparr>pid = 1, save_response.username = str ''alice''\<rparr>,
       \<lparr>portfolio = [\<lparr>doc_id = 0, doc = alice_v1\<rparr>, \<lparr>doc_id = 1, doc = alice_v2\<rparr>], next_id = 2\<rparr>)"
    by (simp add: save_portfolio_def get_documents_def create_document_def delete_many_def
        delete_fails_def alice_store_def alice_v2_def alice_v1_def)
  then show ?thesis
    by (simp add: get_portfolio_def get_documents_def alice_v2_def alice_v1_def)
qed

end
